theory Spec2Isabelle
  imports Main "HOL-Library.Sublist" "HOL-Library.Char_ord"
begin

section \<open>JavaScript strings\<close>

text \<open>
  A source text, a reference string and a path are JavaScript strings. They are modelled
  as \<^typ>\<open>string\<close>, one \<^typ>\<open>char\<close> per code unit, for texts whose code units are below 256.
\<close>

abbreviation NL :: char where "NL \<equiv> CHR 0x0A"
abbreviation CR :: char where "CR \<equiv> CHR 0x0D"
abbreviation SQ :: char where "SQ \<equiv> CHR 0x27"
abbreviation DQ :: char where "DQ \<equiv> CHR 0x22"
abbreviation BSL :: char where "BSL \<equiv> CHR 0x5C"

text \<open>
  \<^verbatim>\<open>s.split(sep)\<close> for a non-empty separator \<open>sep\<close>: the pieces between the occurrences
  of \<open>sep\<close>, found from left to right; \<open>acc\<close> is the piece being read.
\<close>

function js_split_acc :: "string \<Rightarrow> string \<Rightarrow> string \<Rightarrow> string list" where
  "js_split_acc sep acc s =
     (if sep \<noteq> [] \<and> prefix sep s then acc # js_split_acc sep [] (drop (length sep) s)
      else (case s of [] \<Rightarrow> [acc] | c # cs \<Rightarrow> js_split_acc sep (acc @ [c]) cs))"
  by pat_completeness auto
termination
  by (relation "measure (\<lambda>(sep, acc, s). length s)") (auto simp: prefix_def)

declare js_split_acc.simps [simp del]

definition js_split :: "string \<Rightarrow> string \<Rightarrow> string list" where
  "js_split sep s = js_split_acc sep [] s"

text \<open>\<^verbatim>\<open>xs.join(sep)\<close>.\<close>

fun js_join :: "string \<Rightarrow> string list \<Rightarrow> string" where
  "js_join sep [] = []"
| "js_join sep [x] = x"
| "js_join sep (x # y # ys) = x @ sep @ js_join sep (y # ys)"

text \<open>\<^verbatim>\<open>s.includes(sub)\<close>, \<^verbatim>\<open>s.startsWith(p)\<close> is \<^const>\<open>prefix\<close>, and \<^verbatim>\<open>s.endsWith(p)\<close>.\<close>

fun js_includes :: "string \<Rightarrow> string \<Rightarrow> bool" where
  "js_includes [] sub = (sub = [])"
| "js_includes (c # cs) sub = (prefix sub (c # cs) \<or> js_includes cs sub)"

definition js_endsWith :: "string \<Rightarrow> string \<Rightarrow> bool" where
  "js_endsWith s p = prefix (rev p) (rev s)"

text \<open>
  The first occurrence of \<open>sep\<close> in a text: the text before it (after \<open>acc\<close>) and the
  text after it.
\<close>

fun split_first :: "string \<Rightarrow> string \<Rightarrow> string \<Rightarrow> (string \<times> string) option" where
  "split_first sep acc [] = (if sep = [] then Some (acc, []) else None)"
| "split_first sep acc (c # cs) =
     (if prefix sep (c # cs) then Some (acc, drop (length sep) (c # cs))
      else split_first sep (acc @ [c]) cs)"

text \<open>
  White space and line terminators of ECMAScript among the code units below 256: what
  \<^verbatim>\<open>trim\<close> removes and what \<^verbatim>\<open>\s\<close> matches. A word character is what \<^verbatim>\<open>\w\<close> matches, and
  \<^verbatim>\<open>.\<close> matches every code unit but a line terminator.
\<close>

definition is_space :: "char \<Rightarrow> bool" where
  "is_space c = (c \<in> set [CHR 0x09, NL, CHR 0x0B, CHR 0x0C, CR, CHR 0x20, CHR 0xA0])"

definition is_digit :: "char \<Rightarrow> bool" where
  "is_digit c = (CHR ''0'' \<le> c \<and> c \<le> CHR ''9'')"

definition is_word :: "char \<Rightarrow> bool" where
  "is_word c = ((CHR ''a'' \<le> c \<and> c \<le> CHR ''z'') \<or> (CHR ''A'' \<le> c \<and> c \<le> CHR ''Z'')
                 \<or> is_digit c \<or> c = CHR ''_'')"

definition is_dot :: "char \<Rightarrow> bool" where
  "is_dot c = (c \<noteq> NL \<and> c \<noteq> CR)"

definition js_trim :: "string \<Rightarrow> string" where
  "js_trim s = rev (dropWhile is_space (rev (dropWhile is_space s)))"

text \<open>
  \<^verbatim>\<open>s.replace(pattern, replacement)\<close> for a pattern and a replacement that are strings:
  the first occurrence of the pattern is replaced, and in the replacement \<^verbatim>\<open>$$\<close> stands
  for a dollar, \<^verbatim>\<open>$&\<close> for the matched text, \<^verbatim>\<open>$`\<close> for the text before the match
  and \<^verbatim>\<open>$'\<close> for the text after it. A string pattern has no capture, so a dollar
  before a digit stands for itself.
\<close>

fun js_substitution :: "string \<Rightarrow> string \<Rightarrow> string \<Rightarrow> string \<Rightarrow> string" where
  "js_substitution matched pre post [] = []"
| "js_substitution matched pre post [c] = [c]"
| "js_substitution matched pre post (c # d # ds) =
     (if c = CHR ''$'' \<and> d = CHR ''$'' then CHR ''$'' # js_substitution matched pre post ds
      else if c = CHR ''$'' \<and> d = CHR ''&'' then matched @ js_substitution matched pre post ds
      else if c = CHR ''$'' \<and> d = CHR 0x60 then pre @ js_substitution matched pre post ds
      else if c = CHR ''$'' \<and> d = SQ then post @ js_substitution matched pre post ds
      else c # js_substitution matched pre post (d # ds))"

definition js_replace_str :: "string \<Rightarrow> string \<Rightarrow> string \<Rightarrow> string" where
  "js_replace_str s pat repl =
     (case split_first pat [] s of
        None \<Rightarrow> s
      | Some (pre, post) \<Rightarrow> pre @ js_substitution pat pre post repl @ post)"

section \<open>Regular expressions as backtracking matchers\<close>

text \<open>
  A pattern is a matcher in continuation style: it is given what follows it in the
  pattern (the continuation, a function of the remaining text) and the text, and
  answers with the continuation's result for the first way of matching that lets the
  rest of the pattern match, in the order a backtracking engine tries them: a greedy
  quantifier the longest repetition first, a lazy one the shortest first. The
  continuation of a capturing group is given the captured text.
\<close>

type_synonym 'r cont = "string \<Rightarrow> 'r option"

definition re_lit :: "string \<Rightarrow> 'r cont \<Rightarrow> 'r cont" where
  "re_lit l k s = (if prefix l s then k (drop (length l) s) else None)"

definition re_class :: "(char \<Rightarrow> bool) \<Rightarrow> 'r cont \<Rightarrow> 'r cont" where
  "re_class p k s = (case s of [] \<Rightarrow> None | c # cs \<Rightarrow> if p c then k cs else None)"

definition re_class_cap :: "(char \<Rightarrow> bool) \<Rightarrow> (char \<Rightarrow> 'r cont) \<Rightarrow> 'r cont" where
  "re_class_cap p k s = (case s of [] \<Rightarrow> None | c # cs \<Rightarrow> if p c then k c cs else None)"

definition re_end :: "'r option \<Rightarrow> 'r cont" where
  "re_end r s = (if s = [] then r else None)"

fun re_star_lazy :: "(char \<Rightarrow> bool) \<Rightarrow> (string \<Rightarrow> 'r cont) \<Rightarrow> string \<Rightarrow> 'r cont" where
  "re_star_lazy p k acc [] = k acc []"
| "re_star_lazy p k acc (c # cs) =
     (case k acc (c # cs) of
        Some r \<Rightarrow> Some r
      | None \<Rightarrow> if p c then re_star_lazy p k (acc @ [c]) cs else None)"

fun re_star_greedy :: "(char \<Rightarrow> bool) \<Rightarrow> (string \<Rightarrow> 'r cont) \<Rightarrow> string \<Rightarrow> 'r cont" where
  "re_star_greedy p k acc [] = k acc []"
| "re_star_greedy p k acc (c # cs) =
     (if p c
      then (case re_star_greedy p k (acc @ [c]) cs of
              Some r \<Rightarrow> Some r
            | None \<Rightarrow> k acc (c # cs))
      else k acc (c # cs))"

definition re_plus_greedy :: "(char \<Rightarrow> bool) \<Rightarrow> (string \<Rightarrow> 'r cont) \<Rightarrow> 'r cont" where
  "re_plus_greedy p k s =
     (case s of [] \<Rightarrow> None | c # cs \<Rightarrow> if p c then re_star_greedy p k [c] cs else None)"

definition re_opt_greedy :: "(char \<Rightarrow> bool) \<Rightarrow> 'r cont \<Rightarrow> 'r cont" where
  "re_opt_greedy p k s =
     (case s of
        [] \<Rightarrow> k []
      | c # cs \<Rightarrow> if p c then (case k cs of Some r \<Rightarrow> Some r | None \<Rightarrow> k (c # cs))
                  else k (c # cs))"

text \<open>
  \<^verbatim>\<open>s.replace(regex, f)\<close> for a regular expression with the \<^verbatim>\<open>g\<close> flag and a replacer
  function: the matches are found from left to right, each search starting where the
  match before it ended, and every match is replaced by what \<open>f\<close> returns for its
  captures. The matcher \<open>rx\<close> is given the text to the left of the position (for a lookbehind)
  and the text from the position on, and answers with the captures and the text after
  the match. After an empty match the search moves on by one code unit.
\<close>

function js_replace_all ::
  "(string \<Rightarrow> string \<Rightarrow> ('m \<times> string) option) \<Rightarrow> ('m \<Rightarrow> string) \<Rightarrow> string \<Rightarrow> string \<Rightarrow> string" where
  "js_replace_all rx f left s =
     (case rx left s of
        Some (m, rest) \<Rightarrow>
          if length rest < length s
          then f m @ js_replace_all rx f (left @ take (length s - length rest) s) rest
          else (case s of [] \<Rightarrow> f m | c # cs \<Rightarrow> f m @ c # js_replace_all rx f (left @ [c]) cs)
      | None \<Rightarrow> (case s of [] \<Rightarrow> [] | c # cs \<Rightarrow> c # js_replace_all rx f (left @ [c]) cs))"
  by pat_completeness auto
termination
  by (relation "measure (\<lambda>(rx, f, left, s). length s)") auto

declare js_replace_all.simps [simp del]

section \<open>JavaScript values and loose equality\<close>

text \<open>
  The values a build variable and a parsed literal can be. Numbers are IEEE doubles in
  JavaScript; they are kept abstract (\<open>'n\<close>), and what the compiler uses of the
  language runtime is a parameter: \<^verbatim>\<open>JSON.parse\<close> (\<open>None\<close> when it throws), the conversion
  of a string to a number, the equality of numbers, and the numbers 0 and 1. An object
  (an array or an object that \<^verbatim>\<open>JSON.parse\<close> built, or a property inherited from
  \<^verbatim>\<open>Object.prototype\<close>) is kept as the string it converts to.
\<close>

datatype 'n jsval = JUndefined | JNull | JBool bool | JNum 'n | JStr string | JObj string

record 'n js_runtime =
  JSON_parse :: "string \<Rightarrow> 'n jsval option"
  StringToNumber :: "string \<Rightarrow> 'n"
  num_equal :: "'n \<Rightarrow> 'n \<Rightarrow> bool"
  num_zero :: 'n
  num_one :: 'n

definition BoolToNumber :: "'n js_runtime \<Rightarrow> bool \<Rightarrow> 'n" where
  "BoolToNumber rt b = (if b then num_one rt else num_zero rt)"

definition js_rank :: "'n jsval \<Rightarrow> nat" where
  "js_rank v = (case v of JBool _ \<Rightarrow> 1 | JObj _ \<Rightarrow> 1 | _ \<Rightarrow> 0)"

text \<open>
  The operator \<^verbatim>\<open>==\<close> (IsLooselyEqual of ECMAScript), in the order of its steps: values
  of one type are compared strictly; \<^verbatim>\<open>null\<close> and \<^verbatim>\<open>undefined\<close> equal each other; a string
  meeting a number is converted to a number; a boolean is converted to a number; an
  object meeting a string or a number is converted to its primitive. Two objects are
  equal when they are the same object, which a freshly parsed value never is.
\<close>

function (sequential) js_loose_eq :: "'n js_runtime \<Rightarrow> 'n jsval \<Rightarrow> 'n jsval \<Rightarrow> bool" where
  "js_loose_eq rt JUndefined JUndefined = True"
| "js_loose_eq rt JNull JNull = True"
| "js_loose_eq rt (JBool a) (JBool b) = (a = b)"
| "js_loose_eq rt (JNum a) (JNum b) = num_equal rt a b"
| "js_loose_eq rt (JStr a) (JStr b) = (a = b)"
| "js_loose_eq rt (JObj a) (JObj b) = False"
| "js_loose_eq rt JNull JUndefined = True"
| "js_loose_eq rt JUndefined JNull = True"
| "js_loose_eq rt (JNum a) (JStr b) = num_equal rt a (StringToNumber rt b)"
| "js_loose_eq rt (JStr a) (JNum b) = num_equal rt (StringToNumber rt a) b"
| "js_loose_eq rt (JBool a) y = js_loose_eq rt (JNum (BoolToNumber rt a)) y"
| "js_loose_eq rt x (JBool b) = js_loose_eq rt x (JNum (BoolToNumber rt b))"
| "js_loose_eq rt (JStr a) (JObj b) = js_loose_eq rt (JStr a) (JStr b)"
| "js_loose_eq rt (JNum a) (JObj b) = js_loose_eq rt (JNum a) (JStr b)"
| "js_loose_eq rt (JObj a) (JStr b) = js_loose_eq rt (JStr a) (JStr b)"
| "js_loose_eq rt (JObj a) (JNum b) = js_loose_eq rt (JStr a) (JNum b)"
| "js_loose_eq rt x y = False"
  by pat_completeness auto
termination
  by (relation "measure (\<lambda>(rt, x, y). js_rank x + js_rank y)") (auto simp: js_rank_def)


section \<open>Processor directives\<close>

text \<open>
  The pattern of \<^verbatim>\<open>processDirectives\<close>,
  \<^verbatim>\<open>/---@if (\w+)\w?(.*?)\n([\S\s]*?)\n---@end/gm\<close>: its three captures (the variable
  name, the rest of the opening line, the inner code) and the text after the match.
\<close>

definition if_block_regex :: "string \<Rightarrow> (string \<times> string \<times> string \<times> string) option" where
  "if_block_regex =
     re_lit ''---@if ''
      (re_plus_greedy is_word (\<lambda>compareVariableName.
        re_opt_greedy is_word
         (re_star_lazy is_dot (\<lambda>compareValue.
           re_lit [NL]
            (re_star_lazy (\<lambda>c. True) (\<lambda>innerCode.
              re_lit (NL # ''---@end'')
               (\<lambda>rest. Some (compareVariableName, compareValue, innerCode, rest))) [])) [])))"

text \<open>
  The two outputs of a block: the inner code and nothing, or, when the inner code has
  an \<^verbatim>\<open>---@else\<close>, the first and the second piece of the inner code split at it.
\<close>

definition directive_blocks :: "string \<Rightarrow> string \<times> string" where
  "directive_blocks innerCode =
     (if js_includes innerCode ''---@else''
      then (let parts = js_split ''---@else'' innerCode in (parts ! 0, parts ! 1))
      else (innerCode, []))"

text \<open>
  The value compared with the build variable: \<^verbatim>\<open>true\<close> when the rest of the opening
  line is empty, else what \<^verbatim>\<open>JSON.parse\<close> makes of it, else (when that throws) the text
  itself.
\<close>

definition parsedValue :: "'n js_runtime \<Rightarrow> string \<Rightarrow> 'n jsval" where
  "parsedValue rt compareValue =
     (if length compareValue = 0 then JBool True
      else (case JSON_parse rt compareValue of Some v \<Rightarrow> v | None \<Rightarrow> JStr compareValue))"

text \<open>
  The action of the directive. \<open>buildVariables\<close> gives the value of the property of the
  build variables object, \<^const>\<open>JUndefined\<close> for a name that is not bound. The condition
  of the source is \<^verbatim>\<open>parsedValue == this.buildVariables[name] || null\<close>, which JavaScript
  reads as \<^verbatim>\<open>(parsedValue == this.buildVariables[name]) || null\<close>: it holds exactly when
  the comparison does.
\<close>

definition directive_action ::
  "'n js_runtime \<Rightarrow> (string \<Rightarrow> 'n jsval) \<Rightarrow> string \<times> string \<times> string \<Rightarrow> string" where
  "directive_action rt buildVariables m =
     (case m of (compareVariableName, compareValue, innerCode) \<Rightarrow>
        let blocks = directive_blocks innerCode in
        if js_loose_eq rt (parsedValue rt compareValue) (buildVariables compareVariableName)
        then js_trim (fst blocks)
        else js_trim (snd blocks))"

definition processDirectives ::
  "'n js_runtime \<Rightarrow> (string \<Rightarrow> 'n jsval) \<Rightarrow> string \<Rightarrow> string" where
  "processDirectives rt buildVariables sourceCode =
     js_replace_all
       (\<lambda>left s. map_option (\<lambda>(n, v, i, rest). ((n, v, i), rest)) (if_block_regex s))
       (directive_action rt buildVariables) [] sourceCode"

section \<open>References in the project:file syntax\<close>

record DULuaCompilerFileName =
  project :: "string option"
  filename :: string

text \<open>
  \<^verbatim>\<open>parseFileString\<close>: the reference is split at every colon; with fewer than two pieces
  the first piece is the file name, otherwise the first piece is the project and the
  second piece the file name. (\<^verbatim>\<open>formattedFilename\<close> is computed and never used.)
\<close>

definition parseFileString :: "string \<Rightarrow> DULuaCompilerFileName" where
  "parseFileString fname =
     (let parsedFilename = js_split '':'' fname in
      if length parsedFilename < 2
      then \<lparr>project = None, filename = parsedFilename ! 0\<rparr>
      else \<lparr>project = Some (parsedFilename ! 0), filename = parsedFilename ! 1\<rparr>)"

section \<open>The compiler: its data\<close>

record Library =
  lib_id :: string
  sourcePath :: string

record DULuaCompilerFileInfo =
  requireInfo :: DULuaCompilerFileName
  fullpath :: string

record DULuaCompilerRequire =
  fullNameWithProject :: string
  sourceCode :: string

text \<open>
  What the compiler tells the user through \<^verbatim>\<open>CLI.status\<close> and \<^verbatim>\<open>CLI.warn\<close>, one
  constructor for each message of the source with the values the message shows.
\<close>

datatype notice =
    GameLibraryStatus string "string option"
  | NotFoundWarning string "string option"
  | ExternalPathStatus string string
  | CompilingStatus string
  | UndefinedBehaviorWarning

text \<open>
  What stops a compilation: a \<^verbatim>\<open>CLI.panic\<close> or an exception, one constructor for each
  place of the source that raises one.
\<close>

datatype compile_error =
    LibraryNotFound string
  | ProjectFileMissing string
  | FilesRequiredInLoop "string option"
  | LuaParseError string
  | FileUnreadable string
  | NoSourceDirectory
  | CompilerFunctionError string
  | BuildFailed string

text \<open>The fields of the compiler that change while it runs, and the messages so far.\<close>

record compiler_state =
  sourceDirectories :: "string list"
  requiredFiles :: "DULuaCompilerRequire list"
  currentFiles :: "string list"
  currentLibraries :: "Library option list"
  currentLineOfCode :: "nat list"
  cli_log :: "notice list"

text \<open>
  The outcome of a step that can call \<^verbatim>\<open>requireFile\<close>: it ran out of fuel (the recursion
  through the files was cut), it stopped with an error, or it returned a value and the
  state after it.
\<close>

datatype 'a outcome = OutOfFuel | Failed compile_error | Done 'a compiler_state

fun outcome_value :: "'a outcome \<Rightarrow> 'a option" where
  "outcome_value (Done x st) = Some x"
| "outcome_value other = None"

fun outcome_state :: "'a outcome \<Rightarrow> compiler_state option" where
  "outcome_state (Done x st) = Some st"
| "outcome_state other = None"

text \<open>
  What an outcome shows of the state after it: the names of the accumulated entries in
  their order, the messages, and the number of times the compiler announced that it
  compiles a file.
\<close>

definition outcome_entries :: "'a outcome \<Rightarrow> string list option" where
  "outcome_entries out =
     map_option (\<lambda>st. map fullNameWithProject (requiredFiles st)) (outcome_state out)"

definition outcome_log :: "'a outcome \<Rightarrow> notice list option" where
  "outcome_log out = map_option cli_log (outcome_state out)"

definition outcome_compilations :: "string \<Rightarrow> 'a outcome \<Rightarrow> nat option" where
  "outcome_compilations file out =
     map_option (\<lambda>msgs. length (filter (\<lambda>msg. msg = CompilingStatus file) msgs))
       (outcome_log out)"

text \<open>
  What is fixed during one compilation. The functions of Node's \<^verbatim>\<open>path\<close>, \<^verbatim>\<open>fs\<close> and
  \<^verbatim>\<open>crypto\<close> modules, the Lua parser \<^verbatim>\<open>luaparse\<close> (\<open>Some\<close> error when it throws) and the
  language runtime are parameters. So are the parts of the repository that this file
  calls and that are defined elsewhere: \<^verbatim>\<open>Project.containsPath\<close>, the two functions of
  \<^verbatim>\<open>DULuaCompilerExport\<close> and the patterns of \<^verbatim>\<open>DULuaCompilerFunctionParser\<close>, which
  rewrite a line and can read the compiler through its getters only. The remaining
  fields are the project's and the build's settings and what the constructor computes
  from them. \<open>fs_isFile p\<close> stands for
  \<^verbatim>\<open>fs.existsSync(p) && fs.statSync(p).isFile()\<close>, \<open>fs_readFile\<close> is \<open>None\<close> when
  \<^verbatim>\<open>fs.readFileSync\<close> throws, \<open>sha1_hex\<close> for
  \<^verbatim>\<open>crypto.createHash('sha1').update(p).digest('hex')\<close>.
\<close>

record 'n compiler_env =
  path_join :: "string \<Rightarrow> string \<Rightarrow> string"
  path_resolve :: "string \<Rightarrow> string"
  path_relative :: "string \<Rightarrow> string \<Rightarrow> string"
  path_dirname :: "string \<Rightarrow> string"
  path_basename :: "string \<Rightarrow> string"
  fs_isFile :: "string \<Rightarrow> bool"
  fs_readFile :: "string \<Rightarrow> string option"
  sha1_hex :: "string \<Rightarrow> string"
  luaparse :: "string \<Rightarrow> string option"
  runtime :: "'n js_runtime"
  containsPath :: "string \<Rightarrow> bool"
  codeHasExportStatement :: "string \<Rightarrow> bool"
  encodeExportStatement :: "string \<Rightarrow> string"
  compilerFunctions :: "compiler_state \<Rightarrow> string \<Rightarrow> compile_error + string"
  project_name :: string
  build_name :: string
  internalPaths :: "string list"
  preload :: bool
  loadedLibraries :: "string \<Rightarrow> Library option"
  projectLibrary :: Library
  loadedLuaPath :: "string list"
  buildVariables :: "string \<Rightarrow> 'n jsval"

section \<open>The compiler: the current file, directory and library\<close>

definition getCurrentDirectory :: "compiler_state \<Rightarrow> string option" where
  "getCurrentDirectory st = (case sourceDirectories st of [] \<Rightarrow> None | d # _ \<Rightarrow> Some d)"

definition getCurrentFile :: "compiler_state \<Rightarrow> string option" where
  "getCurrentFile st = (case currentFiles st of [] \<Rightarrow> None | f # _ \<Rightarrow> Some f)"

definition getCurrentLibrary :: "compiler_state \<Rightarrow> Library option" where
  "getCurrentLibrary st = (case currentLibraries st of [] \<Rightarrow> None | l # _ \<Rightarrow> l)"

definition sourceStartProcessing ::
  "'n compiler_env \<Rightarrow> string \<Rightarrow> Library option \<Rightarrow> compiler_state \<Rightarrow> compiler_state" where
  "sourceStartProcessing env file library st =
     st\<lparr>currentLibraries := library # currentLibraries st,
        sourceDirectories := path_dirname env file # sourceDirectories st,
        currentFiles := file # currentFiles st\<rparr>"

definition sourceFinishProcessing :: "compiler_state \<Rightarrow> compiler_state" where
  "sourceFinishProcessing st =
     st\<lparr>currentFiles := tl (currentFiles st),
        sourceDirectories := tl (sourceDirectories st),
        currentLibraries := tl (currentLibraries st)\<rparr>"

text \<open>
  \<^verbatim>\<open>isRootFile\<close> is \<^verbatim>\<open>!this.currentFiles[0]\<close>: no file is being processed, or the name
  of the file being processed is the empty string.
\<close>

definition isRootFile :: "compiler_state \<Rightarrow> bool" where
  "isRootFile st = (case currentFiles st of [] \<Rightarrow> True | f # _ \<Rightarrow> f = [])"

definition cli :: "notice \<Rightarrow> compiler_state \<Rightarrow> compiler_state" where
  "cli msg st = st\<lparr>cli_log := cli_log st @ [msg]\<rparr>"

section \<open>The compiler: resolving a reference\<close>

text \<open>
  \<^verbatim>\<open>getRequiredFileInfo\<close>. A project is named when \<^verbatim>\<open>file.project\<close> is truthy: present
  and not empty. The candidates are the template \<^verbatim>\<open>?.lua\<close> under the named library's
  source path (or under the current directory), then the templates of \<^verbatim>\<open>LUA_PATH\<close>, each
  with its first \<^verbatim>\<open>?\<close> replaced by the file name; the first candidate that is a file is
  taken. With a current library, the project becomes the current library's id when
  none is named, and the file name becomes the resolved path relative to the current
  library's source path, backslashes turned into slashes. Lookups in \<^verbatim>\<open>loadedLibraries\<close>
  are modelled for keys that are not properties of \<^verbatim>\<open>Object.prototype\<close>.
\<close>

definition named_project :: "DULuaCompilerFileName \<Rightarrow> string option" where
  "named_project file = (case project file of None \<Rightarrow> None | Some p \<Rightarrow> if p = [] then None else Some p)"

definition backslashes_to_slashes :: "string \<Rightarrow> string" where
  "backslashes_to_slashes s = map (\<lambda>c. if c = BSL then CHR ''/'' else c) s"

definition getRequiredFileInfo ::
  "'n compiler_env \<Rightarrow> compiler_state \<Rightarrow> string \<Rightarrow> compile_error + DULuaCompilerFileInfo option" where
  "getRequiredFileInfo env st fname =
     (let file = parseFileString fname;
          library = (case named_project file of
                       Some p \<Rightarrow> loadedLibraries env p
                     | None \<Rightarrow> Some (projectLibrary env))
      in case library of
           None \<Rightarrow> Inl (LibraryNotFound fname)
         | Some lib \<Rightarrow>
            (case (case named_project file of
                     Some p \<Rightarrow> Some (sourcePath lib)
                   | None \<Rightarrow> getCurrentDirectory st) of
               None \<Rightarrow> Inl NoSourceDirectory
             | Some projectPrefix \<Rightarrow>
                (let internalLuaPath = path_join env projectPrefix ''?.lua'' # loadedLuaPath env;
                     possibleFilePaths =
                       map (\<lambda>p. js_replace_str p ''?'' (filename file)) internalLuaPath
                 in case find (fs_isFile env) possibleFilePaths of
                      None \<Rightarrow> Inr None
                    | Some filepath \<Rightarrow>
                       if filepath = [] then Inr None
                       else
                        (let full = path_resolve env filepath;
                             file' =
                               (case getCurrentLibrary st of
                                  None \<Rightarrow> file
                                | Some currentLibrary \<Rightarrow>
                                    \<lparr>project =
                                       (case named_project file of
                                          Some p \<Rightarrow> Some p
                                        | None \<Rightarrow> Some (lib_id currentLibrary)),
                                     filename =
                                       backslashes_to_slashes
                                         (path_relative env (sourcePath currentLibrary) full)\<rparr>)
                         in Inr (Some \<lparr>requireInfo = file', fullpath = full\<rparr>)))))"

section \<open>The compiler: transforming a source text\<close>

text \<open>
  Modelled from the spec: \<^verbatim>\<open>Utils.replaceAsync\<close>, which is not among the sources. It is
  \<^const>\<open>js_replace_all\<close> for a replacer that takes the whole match and the captures, can
  change the compiler's state and can fail; by section 5 of the specification no two
  rewrites run at the same time, so the matches are handled one after the other, from
  left to right.
\<close>

function replaceAsync ::
  "(string \<Rightarrow> string \<Rightarrow> ('m \<times> string) option) \<Rightarrow>
   (string \<Rightarrow> 'm \<Rightarrow> compiler_state \<Rightarrow> string outcome) \<Rightarrow>
   string \<Rightarrow> string \<Rightarrow> compiler_state \<Rightarrow> string outcome" where
  "replaceAsync rx h left s st =
     (case rx left s of
        Some (m, rest) \<Rightarrow>
          (case h (take (length s - length rest) s) m st of
             OutOfFuel \<Rightarrow> OutOfFuel
           | Failed e \<Rightarrow> Failed e
           | Done r st' \<Rightarrow>
               if length rest < length s
               then (case replaceAsync rx h (left @ take (length s - length rest) s) rest st' of
                       OutOfFuel \<Rightarrow> OutOfFuel
                     | Failed e \<Rightarrow> Failed e
                     | Done out st'' \<Rightarrow> Done (r @ out) st'')
               else (case s of
                       [] \<Rightarrow> Done r st'
                     | c # cs \<Rightarrow>
                        (case replaceAsync rx h (left @ [c]) cs st' of
                           OutOfFuel \<Rightarrow> OutOfFuel
                         | Failed e \<Rightarrow> Failed e
                         | Done out st'' \<Rightarrow> Done (r @ c # out) st'')))
      | None \<Rightarrow>
          (case s of
             [] \<Rightarrow> Done [] st
           | c # cs \<Rightarrow>
              (case replaceAsync rx h (left @ [c]) cs st of
                 OutOfFuel \<Rightarrow> OutOfFuel
               | Failed e \<Rightarrow> Failed e
               | Done out st' \<Rightarrow> Done (c # out) st')))"
  by pat_completeness auto
termination
  by (relation "measure (\<lambda>(rx, h, left, s, st). length s)") auto

declare replaceAsync.simps [simp del]

text \<open>
  The pattern of a require statement,
  \<^verbatim>\<open>/(?<!--)require\s*\(\s*['"]([^'"]+)['"]\s*\)/g\<close>: the captured file and the text
  after the match.
\<close>

definition is_quote :: "char \<Rightarrow> bool" where
  "is_quote c = (c = SQ \<or> c = DQ)"

definition require_regex :: "string \<Rightarrow> string \<Rightarrow> (string \<times> string) option" where
  "require_regex left =
     (if js_endsWith left ''--'' then (\<lambda>s. None)
      else
       re_lit ''require''
        (re_star_greedy is_space (\<lambda>_.
          re_lit ''(''
           (re_star_greedy is_space (\<lambda>_.
             re_class is_quote
              (re_plus_greedy (\<lambda>c. \<not> is_quote c) (\<lambda>file.
                re_class is_quote
                 (re_star_greedy is_space (\<lambda>_.
                   re_lit '')'' (\<lambda>rest. Some (file, rest))) [])))) [])) []))"

text \<open>
  \<^verbatim>\<open>escapeForRegex\<close> puts a backslash before each of \<^verbatim>\<open>. * + ? ^ $ { } ( ) | [ ] \\<close>.
  A pattern built from an escaped text matches that text and nothing else, so
  \<^verbatim>\<open>new RegExp(escapeForRegex(t))\<close> is modelled by \<^const>\<open>re_lit\<close> \<open>t\<close>, and its \<^verbatim>\<open>test\<close> by
  \<^const>\<open>js_includes\<close>.
\<close>

definition escapeForRegex :: "string \<Rightarrow> string" where
  "escapeForRegex s =
     concat (map (\<lambda>c. if c \<in> set (''.*+?^${}()|[]'' @ [BSL]) then [BSL, c] else [c]) s)"

text \<open>
  The four patterns that empty what is not code in the handler of a require statement:
  \<^verbatim>\<open>\[{2}(.|\n)*?\]{2}\<close>, \<^verbatim>\<open>-{2}.*\<close>, and, around the rewritten require \<open>r\<close>,
  \<^verbatim>\<open>\'.*?r.*?\'\<close> and \<^verbatim>\<open>\".*?r.*?\"\<close>.
\<close>

definition long_bracket_regex :: "string \<Rightarrow> string \<Rightarrow> (unit \<times> string) option" where
  "long_bracket_regex left =
     re_lit ''[[''
      (re_star_lazy (\<lambda>c. is_dot c \<or> c = NL) (\<lambda>_.
        re_lit '']]'' (\<lambda>rest. Some ((), rest))) [])"

definition line_comment_regex :: "string \<Rightarrow> string \<Rightarrow> (unit \<times> string) option" where
  "line_comment_regex left =
     re_lit ''--'' (re_star_greedy is_dot (\<lambda>_ rest. Some ((), rest)) [])"

definition quoted_regex :: "char \<Rightarrow> string \<Rightarrow> string \<Rightarrow> string \<Rightarrow> (unit \<times> string) option" where
  "quoted_regex q r left =
     re_lit [q]
      (re_star_lazy is_dot (\<lambda>_.
        re_lit r
         (re_star_lazy is_dot (\<lambda>_.
           re_lit [q] (\<lambda>rest. Some ((), rest))) [])) [])"

definition js_remove_all :: "(string \<Rightarrow> string \<Rightarrow> (unit \<times> string) option) \<Rightarrow> string \<Rightarrow> string" where
  "js_remove_all rx s = js_replace_all rx (\<lambda>_. []) [] s"

text \<open>
  The test the handler makes before it resolves a require: the text of the match must
  still occur in the clean source once the escaped match has been replaced by the
  rewritten require (a replacement of a string by a string) and the four patterns
  have been emptied.
\<close>

definition require_in_code :: "string \<Rightarrow> string \<Rightarrow> string \<Rightarrow> bool" where
  "require_in_code cleanSource fullMatch file =
     (let newRequire = ''require([['' @ file @ '']])'';
          tempSource =
            js_remove_all (quoted_regex DQ newRequire)
             (js_remove_all (quoted_regex SQ newRequire)
               (js_remove_all line_comment_regex
                 (js_remove_all long_bracket_regex
                   (js_replace_str cleanSource (escapeForRegex fullMatch) newRequire))))
      in js_includes tempSource fullMatch)"

text \<open>
  The handler of a require statement; \<open>req\<close> is \<^verbatim>\<open>this.requireFile\<close>. The global of
  inlined requires is \<^verbatim>\<open>_REQ\<close>.
\<close>

definition require_handler ::
  "'n compiler_env \<Rightarrow> (string \<Rightarrow> compiler_state \<Rightarrow> DULuaCompilerRequire option outcome) \<Rightarrow>
   string \<Rightarrow> string \<Rightarrow> string \<Rightarrow> compiler_state \<Rightarrow> string outcome" where
  "require_handler env req cleanSource fullMatch file st =
     (if \<not> require_in_code cleanSource fullMatch file then Done fullMatch st
      else
       (case req file st of
          OutOfFuel \<Rightarrow> OutOfFuel
        | Failed e \<Rightarrow> Failed e
        | Done None st' \<Rightarrow> Done fullMatch st'
        | Done (Some requireResult) st' \<Rightarrow>
            if \<not> preload env
            then Done (''_REQ['' @ [SQ] @ fullNameWithProject requireResult @ [SQ] @ '']'') st'
            else Done (''require('' @ [SQ] @ fullNameWithProject requireResult @ [SQ] @ '')'') st'))"

text \<open>
  The pattern \<^verbatim>\<open>/([0-9])\?\n/g\<close> and its handler, which warns and completes the decimal.
\<close>

definition undefinedBehavior_regex :: "string \<Rightarrow> string \<Rightarrow> (char \<times> string) option" where
  "undefinedBehavior_regex left =
     re_class_cap is_digit (\<lambda>number. re_lit (''?'' @ [NL]) (\<lambda>rest. Some (number, rest)))"

definition undefinedBehavior_handler :: "string \<Rightarrow> char \<Rightarrow> compiler_state \<Rightarrow> string outcome" where
  "undefinedBehavior_handler fullMatch number st =
     Done ([number] @ ''.0'' @ [NL]) (cli UndefinedBehaviorWarning st)"

text \<open>
  The test of a line for an inlined require and nothing else,
  \<^verbatim>\<open>line.match(/^\s*_REQ\['.*?'\]\s*$/)\<close>.
\<close>

definition inline_require_line :: "string \<Rightarrow> bool" where
  "inline_require_line line =
     (re_star_greedy is_space (\<lambda>_.
        re_lit (''_REQ['' @ [SQ])
         (re_star_lazy is_dot (\<lambda>_.
           re_lit (SQ # '']'')
            (re_star_greedy is_space (\<lambda>_. re_end (Some ())) [])) [])) [] line \<noteq> None)"

definition set_line_of_code :: "nat \<Rightarrow> compiler_state \<Rightarrow> compiler_state" where
  "set_line_of_code n st =
     st\<lparr>currentLineOfCode := (case currentLineOfCode st of [] \<Rightarrow> [n] | _ # ls \<Rightarrow> n # ls)\<rparr>"

text \<open>
  The body of the loop over the lines, for one line: the line after the export step,
  the patterns in the order of \<^verbatim>\<open>compilerRegexes\<close> (require statements, the undefined
  behaviour, then the compiler functions), or \<open>None\<close> when the loop executes
  \<^verbatim>\<open>return ''\<close>: without preloads, for a line that is an inlined require and nothing
  else.
\<close>

definition process_line ::
  "'n compiler_env \<Rightarrow> (string \<Rightarrow> compiler_state \<Rightarrow> DULuaCompilerRequire option outcome) \<Rightarrow>
   string \<Rightarrow> nat \<Rightarrow> string \<Rightarrow> compiler_state \<Rightarrow> string option outcome" where
  "process_line env req cleanSource idx line0 st0 =
     (let st1 = set_line_of_code (idx + 1) st0;
          line1 = (if codeHasExportStatement env line0 then encodeExportStatement env line0
                   else line0)
      in case replaceAsync require_regex (require_handler env req cleanSource) [] line1 st1 of
           OutOfFuel \<Rightarrow> OutOfFuel
         | Failed e \<Rightarrow> Failed e
         | Done line2 st2 \<Rightarrow>
            (case replaceAsync undefinedBehavior_regex undefinedBehavior_handler [] line2 st2 of
               OutOfFuel \<Rightarrow> OutOfFuel
             | Failed e \<Rightarrow> Failed e
             | Done line3 st3 \<Rightarrow>
                (case compilerFunctions env st3 line3 of
                   Inl e \<Rightarrow> Failed e
                 | Inr line4 \<Rightarrow>
                    if \<not> preload env \<and> inline_require_line line4 then Done None st3
                    else Done (Some line4) st3)))"

text \<open>
  The loop over the lines: \<open>done\<close> holds the lines already processed. When a line makes
  the loop return, the function returns the empty text at once; otherwise, after the
  last line, \<^verbatim>\<open>currentLineOfCode.pop()\<close> removes the last element of the list and the
  lines are joined.
\<close>

fun process_lines ::
  "'n compiler_env \<Rightarrow> (string \<Rightarrow> compiler_state \<Rightarrow> DULuaCompilerRequire option outcome) \<Rightarrow>
   string \<Rightarrow> nat \<Rightarrow> string list \<Rightarrow> string list \<Rightarrow> compiler_state \<Rightarrow> string outcome" where
  "process_lines env req cleanSource idx done [] st =
     Done (js_join [NL] done) (st\<lparr>currentLineOfCode := butlast (currentLineOfCode st)\<rparr>)"
| "process_lines env req cleanSource idx done (line # lines) st =
     (case process_line env req cleanSource idx line st of
        OutOfFuel \<Rightarrow> OutOfFuel
      | Failed e \<Rightarrow> Failed e
      | Done None st' \<Rightarrow> Done [] st'
      | Done (Some line') st' \<Rightarrow>
          process_lines env req cleanSource (idx + 1) (done @ [line']) lines st')"

definition crlf_regex :: "string \<Rightarrow> string \<Rightarrow> (unit \<times> string) option" where
  "crlf_regex left = re_lit [CR, NL] (\<lambda>rest. Some ((), rest))"

text \<open>
  \<^verbatim>\<open>processSourceCode\<close>. The lines are those of the text after the directives, the clean
  source is that text without its carriage returns.
\<close>

definition processSourceCode ::
  "'n compiler_env \<Rightarrow> (string \<Rightarrow> compiler_state \<Rightarrow> DULuaCompilerRequire option outcome) \<Rightarrow>
   string \<Rightarrow> compiler_state \<Rightarrow> string outcome" where
  "processSourceCode env req src0 st =
     (let src1 = js_replace_all crlf_regex (\<lambda>_. [NL]) [] src0;
          src2 = processDirectives (runtime env) (buildVariables env) src1
      in case luaparse env src2 of
           Some err \<Rightarrow> Failed (LuaParseError err)
         | None \<Rightarrow>
            (let cleanSource = filter (\<lambda>c. c \<noteq> CR) src2;
                 st1 = st\<lparr>currentLineOfCode := 0 # currentLineOfCode st\<rparr>
             in process_lines env req cleanSource 0 [] (js_split [NL] src2) st1))"

section \<open>The compiler: requiring a file\<close>

text \<open>
  The name of a file outside the project: the first ten characters of the hexadecimal
  SHA-1 digest of its full path, a colon, and the base name of the path.
\<close>

definition external_name :: "'n compiler_env \<Rightarrow> string \<Rightarrow> string" where
  "external_name env full =
     (let safePathHash = take 10 (sha1_hex env full)
      in safePathHash @ '':'' @ path_basename env full)"

definition internal_name :: "DULuaCompilerFileName \<Rightarrow> string" where
  "internal_name file =
     (case named_project file of Some p \<Rightarrow> p | None \<Rightarrow> ''::extern'') @ '':'' @ filename file"

definition requireFullName :: "'n compiler_env \<Rightarrow> DULuaCompilerFileInfo \<Rightarrow> string" where
  "requireFullName env requiredInfo =
     (if \<not> containsPath env (fullpath requiredInfo) then external_name env (fullpath requiredInfo)
      else internal_name (requireInfo requiredInfo))"

text \<open>
  \<^verbatim>\<open>requireFile\<close>, with \<open>req\<close> for the calls of \<^verbatim>\<open>requireFile\<close> that processing the source
  makes.
\<close>

definition requireFile_body ::
  "'n compiler_env \<Rightarrow> (string \<Rightarrow> compiler_state \<Rightarrow> DULuaCompilerRequire option outcome) \<Rightarrow>
   string \<Rightarrow> compiler_state \<Rightarrow> DULuaCompilerRequire option outcome" where
  "requireFile_body env req fname st =
     (case getRequiredFileInfo env st fname of
        Inl e \<Rightarrow> Failed e
      | Inr None \<Rightarrow>
          if isRootFile st then Failed (ProjectFileMissing fname)
          else if filter (\<lambda>p. prefix p fname) (internalPaths env) \<noteq> []
          then Done None (cli (GameLibraryStatus fname (getCurrentFile st)) st)
          else Done None (cli (NotFoundWarning fname (getCurrentFile st)) st)
      | Inr (Some requiredInfo) \<Rightarrow>
          if fullpath requiredInfo \<in> set (currentFiles st)
          then Failed (FilesRequiredInLoop (getCurrentFile st))
          else
           (let name = requireFullName env requiredInfo;
                st1 = (if \<not> containsPath env (fullpath requiredInfo)
                       then cli (ExternalPathStatus name (fullpath requiredInfo)) st
                       else st)
            in case filter (\<lambda>entry. fullNameWithProject entry = name) (requiredFiles st1) of
                 existing # _ \<Rightarrow> Done (Some existing) st1
               | [] \<Rightarrow>
                  (case fs_readFile env (fullpath requiredInfo) of
                     None \<Rightarrow> Failed (FileUnreadable (fullpath requiredInfo))
                   | Some src \<Rightarrow>
                      (let st2 = cli (CompilingStatus (fullpath requiredInfo)) st1;
                           st3 = sourceStartProcessing env (fullpath requiredInfo)
                                   (case named_project (requireInfo requiredInfo) of
                                      Some p \<Rightarrow> loadedLibraries env p
                                    | None \<Rightarrow> None) st2
                       in case processSourceCode env req src st3 of
                            OutOfFuel \<Rightarrow> OutOfFuel
                          | Failed e \<Rightarrow> Failed e
                          | Done processedSource st4 \<Rightarrow>
                             (let st5 = sourceFinishProcessing st4;
                                  requireEntry = \<lparr>fullNameWithProject = name,
                                                  sourceCode = processedSource\<rparr>
                              in if \<not> isRootFile st5
                                 then Done (Some requireEntry)
                                        (st5\<lparr>requiredFiles := requiredFiles st5 @ [requireEntry]\<rparr>)
                                 else Done (Some requireEntry) st5)))))"

text \<open>
  The recursion of \<^verbatim>\<open>requireFile\<close> through the files it processes, cut after \<open>fuel\<close>
  nested calls.
\<close>

primrec requireFile ::
  "nat \<Rightarrow> 'n compiler_env \<Rightarrow> string \<Rightarrow> compiler_state \<Rightarrow> DULuaCompilerRequire option outcome" where
  "requireFile 0 env fname st = OutOfFuel"
| "requireFile (Suc fuel) env fname st = requireFile_body env (requireFile fuel env) fname st"

text \<open>
  \<^verbatim>\<open>startBuild\<close> for the build's own file: the state of a new compiler with the project as
  the current library, the virtual require of \<^verbatim>\<open>project:build\<close>, and the result: the output
  and, for each required file, its name, its source and its preload.
\<close>

record DULuaCompilerPreload =
  preload_path :: string
  preload_source :: string
  preload_output :: string

record DULuaCompilerResult =
  result_output :: string
  result_preloads :: "DULuaCompilerPreload list"

definition initial_state :: "'n compiler_env \<Rightarrow> compiler_state" where
  "initial_state env =
     \<lparr>sourceDirectories = [sourcePath (projectLibrary env)],
      requiredFiles = [],
      currentFiles = [],
      currentLibraries = [Some (projectLibrary env)],
      currentLineOfCode = [],
      cli_log = []\<rparr>"

definition output_preload :: "DULuaCompilerRequire \<Rightarrow> DULuaCompilerPreload" where
  "output_preload file =
     \<lparr>preload_path = fullNameWithProject file,
      preload_source = sourceCode file,
      preload_output = ''package.preload['' @ [SQ] @ fullNameWithProject file @ [SQ]
                         @ ''] = (function (...) '' @ sourceCode file @ ''; end);''\<rparr>"

definition startBuild :: "nat \<Rightarrow> 'n compiler_env \<Rightarrow> DULuaCompilerResult outcome" where
  "startBuild fuel env =
     (case requireFile fuel env (project_name env @ '':'' @ build_name env) (initial_state env) of
        OutOfFuel \<Rightarrow> OutOfFuel
      | Failed e \<Rightarrow> Failed e
      | Done None st \<Rightarrow> Failed (BuildFailed (build_name env))
      | Done (Some outputLua) st \<Rightarrow>
          Done \<lparr>result_output = sourceCode outputLua,
                 result_preloads = map output_preload (requiredFiles st)\<rparr> st)"

section \<open>Notions for the proofs\<close>

text \<open>
  A continuation is stable under a text \<open>tail\<close> when appending \<open>tail\<close> to its input
  changes its answer by \<open>ext\<close> only, and it answers nothing on a suffix of \<open>tail\<close>: a
  match can neither end in \<open>tail\<close> nor begin there.
\<close>

definition stable_cont :: "string \<Rightarrow> ('r \<Rightarrow> 'r) \<Rightarrow> 'r cont \<Rightarrow> bool" where
  "stable_cont tail ext k \<longleftrightarrow>
     (\<forall>x. k (x @ tail) = map_option ext (k x)) \<and> (\<forall>z. suffix z tail \<longrightarrow> k z = None)"

text \<open>
  A pattern matches nowhere in a text \<open>s\<close> that stands between \<open>left\<close> and \<open>tail\<close> when no
  match begins at a position of \<open>s\<close> (a match that begins in \<open>s\<close> may end in \<open>tail\<close>, so
  the matcher is asked about the text from the position to the end).
\<close>

definition matches_nowhere ::
  "(string \<Rightarrow> string \<Rightarrow> 'm option) \<Rightarrow> string \<Rightarrow> string \<Rightarrow> string \<Rightarrow> bool" where
  "matches_nowhere rx left s tail =
     list_all (\<lambda>n. rx (left @ take n s) (drop n s @ tail) = None) [0..<length s]"



section \<open>An environment for the examples\<close>

text \<open>
  The theorems below hold for every environment. Where one is evaluated on an example,
  the parameters are these. The runtime has the integers and NaN (\<open>None\<close>) for its
  numbers; its \<^verbatim>\<open>JSON.parse\<close> reads \<^verbatim>\<open>true\<close>, \<^verbatim>\<open>false\<close>, \<^verbatim>\<open>null\<close>, a string without escapes
  and an integer in decimal digits, between white space, and its conversion of a string
  to a number reads decimal digits between white space; on these texts it agrees with
  ECMAScript, and the examples use no other.
\<close>

definition ex_decimal :: "string \<Rightarrow> int" where
  "ex_decimal ds = foldl (\<lambda>n c. 10 * n + (of_char c - 48)) 0 ds"

definition ex_json_trim :: "string \<Rightarrow> string" where
  "ex_json_trim s =
     (let ws = (\<lambda>c. c \<in> set [CHR 0x20, CHR 0x09, NL, CR])
      in rev (dropWhile ws (rev (dropWhile ws s))))"

definition ex_JSON_parse :: "string \<Rightarrow> int option jsval option" where
  "ex_JSON_parse s =
     (let t = ex_json_trim s in
      if t = ''true'' then Some (JBool True)
      else if t = ''false'' then Some (JBool False)
      else if t = ''null'' then Some JNull
      else if 2 \<le> length t \<and> hd t = DQ \<and> last t = DQ
              \<and> list_all (\<lambda>c. c \<noteq> DQ \<and> c \<noteq> BSL \<and> CHR 0x20 \<le> c) (butlast (tl t))
      then Some (JStr (butlast (tl t)))
      else if t \<noteq> [] \<and> list_all is_digit t \<and> (t = ''0'' \<or> hd t \<noteq> CHR ''0'')
      then Some (JNum (Some (ex_decimal t)))
      else None)"

definition ex_StringToNumber :: "string \<Rightarrow> int option" where
  "ex_StringToNumber s =
     (let t = js_trim s in
      if t = [] then Some 0
      else if list_all is_digit t then Some (ex_decimal t)
      else None)"

definition ex_runtime :: "int option js_runtime" where
  "ex_runtime =
     \<lparr>JSON_parse = ex_JSON_parse,
      StringToNumber = ex_StringToNumber,
      num_equal = (\<lambda>a b. a \<noteq> None \<and> a = b),
      num_zero = Some 0,
      num_one = Some 1\<rparr>"


text \<open>
  The functions of Node's \<^verbatim>\<open>path\<close> module on POSIX, for absolute paths: a path is
  resolved segment by segment, \<^verbatim>\<open>.\<close> and empty segments dropped and \<^verbatim>\<open>..\<close> removing the
  segment before it.
\<close>

fun posix_up :: "string list \<Rightarrow> string list \<Rightarrow> string list" where
  "posix_up acc [] = acc"
| "posix_up acc (s # ss) =
     (if s = ''..'' then posix_up (butlast acc) ss else posix_up (acc @ [s]) ss)"

definition posix_segments :: "string \<Rightarrow> string list" where
  "posix_segments p = posix_up [] (filter (\<lambda>s. s \<noteq> [] \<and> s \<noteq> ''.'') (js_split ''/'' p))"

definition posix_resolve :: "string \<Rightarrow> string" where
  "posix_resolve p = ''/'' @ js_join ''/'' (posix_segments p)"

definition posix_join :: "string \<Rightarrow> string \<Rightarrow> string" where
  "posix_join a b = posix_resolve (a @ ''/'' @ b)"

definition posix_relative :: "string \<Rightarrow> string \<Rightarrow> string" where
  "posix_relative a b =
     (let f = posix_segments a; t = posix_segments b;
          n = length (longest_common_prefix f t)
      in js_join ''/'' (replicate (length f - n) ''..'' @ drop n t))"

definition posix_dirname :: "string \<Rightarrow> string" where
  "posix_dirname p = ''/'' @ js_join ''/'' (butlast (posix_segments p))"

definition posix_basename :: "string \<Rightarrow> string" where
  "posix_basename p = (case posix_segments p of [] \<Rightarrow> [] | s # ss \<Rightarrow> last (s # ss))"

text \<open>
  A stand-in for the digest in the examples: forty hexadecimal digits computed from
  all of the path. The theorems take the digest as a parameter and use nothing of
  SHA-1 but what they state.
\<close>

definition ex_hex_digit :: "nat \<Rightarrow> char" where
  "ex_hex_digit n = ''0123456789abcdef'' ! n"

definition ex_digest :: "string \<Rightarrow> string" where
  "ex_digest p =
     (let h = foldl (\<lambda>h c. (h * 257 + of_char c + 1) mod 16 ^ 40) (0 :: int) p
      in map (\<lambda>i. ex_hex_digit (nat (h div 16 ^ i mod 16))) [0..<40])"

text \<open>
  The environment of a project: the files with their contents, the libraries besides
  the project, the project as a library, the directory that bounds the project, the name
  of the build, and whether preloads are written. Every text is taken for valid Lua, no
  line has an export statement or a call of a compiler function, \<^verbatim>\<open>LUA_PATH\<close> is empty, no
  prefix is internal and no build variable is bound.
\<close>

definition ex_env ::
  "(string \<times> string) list \<Rightarrow> (string \<times> Library) list \<Rightarrow> Library \<Rightarrow> string \<Rightarrow> string \<Rightarrow> bool \<Rightarrow>
   int option compiler_env" where
  "ex_env files libs proj boundary build with_preload =
     \<lparr>path_join = posix_join,
      path_resolve = posix_resolve,
      path_relative = posix_relative,
      path_dirname = posix_dirname,
      path_basename = posix_basename,
      fs_isFile = (\<lambda>p. map_of files (posix_resolve p) \<noteq> None),
      fs_readFile = (\<lambda>p. map_of files (posix_resolve p)),
      sha1_hex = ex_digest,
      luaparse = (\<lambda>src. None),
      runtime = ex_runtime,
      containsPath = (\<lambda>p. prefix (boundary @ ''/'') p),
      codeHasExportStatement = (\<lambda>line. False),
      encodeExportStatement = (\<lambda>line. line),
      compilerFunctions = (\<lambda>st line. Inr line),
      project_name = lib_id proj,
      build_name = build,
      internalPaths = [],
      preload = with_preload,
      loadedLibraries = map_of ((lib_id proj, proj) # libs),
      projectLibrary = proj,
      loadedLuaPath = [],
      buildVariables = (\<lambda>v. JUndefined)\<rparr>"

section \<open>The projects of the examples\<close>

text \<open>
  A project \<^verbatim>\<open>proj\<close> in \<^verbatim>\<open>/p\<close> with its sources in \<^verbatim>\<open>/p/src\<close>, a library \<^verbatim>\<open>lib\<close> kept
  inside the project in \<^verbatim>\<open>/p/lib\<close>, and a library \<^verbatim>\<open>ext\<close> outside of it in \<^verbatim>\<open>/ext\<close>.
\<close>

definition ex_proj :: Library where
  "ex_proj = \<lparr>lib_id = ''proj'', sourcePath = ''/p/src''\<rparr>"

definition ex_lib :: Library where
  "ex_lib = \<lparr>lib_id = ''lib'', sourcePath = ''/p/lib''\<rparr>"

definition ex_ext :: Library where
  "ex_ext = \<lparr>lib_id = ''ext'', sourcePath = ''/ext''\<rparr>"

text \<open>A Lua call \<^verbatim>\<open>require("name")\<close>.\<close>

definition lua_require :: "string \<Rightarrow> string" where
  "lua_require name = ''require('' @ [DQ] @ name @ [DQ] @ '')''"

text \<open>
  The build \<^verbatim>\<open>main\<close> requires \<^verbatim>\<open>util\<close> on a line of its own and then prints.
\<close>

definition ex_inline_files :: "(string \<times> string) list" where
  "ex_inline_files =
     [(''/p/src/main.lua'', lua_require ''util'' @ [NL] @ ''print(1)''),
      (''/p/src/util.lua'', ''return 1'')]"

definition ex_inline_env :: "bool \<Rightarrow> int option compiler_env" where
  "ex_inline_env with_preload = ex_env ex_inline_files [] ex_proj ''/p'' ''main'' with_preload"

text \<open>
  The build \<^verbatim>\<open>main\<close> requires \<^verbatim>\<open>lib:util\<close> and \<^verbatim>\<open>lib:helper\<close>, and the helper of the
  library requires \<^verbatim>\<open>util\<close>: the file \<^verbatim>\<open>/p/lib/util.lua\<close> is reached on two paths, and on
  no cycle.
\<close>

definition ex_diamond_files :: "(string \<times> string) list" where
  "ex_diamond_files =
     [(''/p/src/main.lua'',
         ''local u = '' @ lua_require ''lib:util'' @ [NL] @ ''local h = '' @ lua_require ''lib:helper''),
      (''/p/lib/util.lua'', ''return 1''),
      (''/p/lib/helper.lua'', ''return '' @ lua_require ''util'')]"

definition ex_diamond_env :: "int option compiler_env" where
  "ex_diamond_env = ex_env ex_diamond_files [(''lib'', ex_lib)] ex_proj ''/p'' ''main'' True"

text \<open>The build \<^verbatim>\<open>a\<close> requires \<^verbatim>\<open>b\<close>, which requires \<^verbatim>\<open>a\<close>.\<close>

definition ex_cycle_files :: "(string \<times> string) list" where
  "ex_cycle_files =
     [(''/p/src/a.lua'', ''return '' @ lua_require ''b''),
      (''/p/src/b.lua'', ''return '' @ lua_require ''a'')]"

definition ex_cycle_env :: "int option compiler_env" where
  "ex_cycle_env = ex_env ex_cycle_files [] ex_proj ''/p'' ''a'' True"





text \<open>The build \<^verbatim>\<open>main\<close> requires \<^verbatim>\<open>ext:tool\<close>, a file outside the project.\<close>

definition ex_external_files :: "(string \<times> string) list" where
  "ex_external_files =
     [(''/p/src/main.lua'', ''return '' @ lua_require ''ext:tool''),
      (''/ext/tool.lua'', ''return 2'')]"

definition ex_external_env :: "int option compiler_env" where
  "ex_external_env = ex_env ex_external_files [(''ext'', ex_ext)] ex_proj ''/p'' ''main'' True"

text \<open>
  The build \<^verbatim>\<open>main\<close> has a comment that ends in a digit and a question mark, before a
  line break.
\<close>

definition ex_question_files :: "(string \<times> string) list" where
  "ex_question_files = [(''/p/src/main.lua'', ''x = 1 -- v5?'' @ [NL] @ ''return x'')]"

definition ex_question_env :: "int option compiler_env" where
  "ex_question_env = ex_env ex_question_files [] ex_proj ''/p'' ''main'' True"

text \<open>The state of the compiler while it processes the file \<open>file\<close> of the project's sources,
  required by the build, with the messages \<open>msgs\<close> so far.\<close>

definition ex_state_in :: "string \<Rightarrow> Library \<Rightarrow> string list \<Rightarrow> notice list \<Rightarrow> compiler_state" where
  "ex_state_in dir library files msgs =
     \<lparr>sourceDirectories = [dir, ''/p/src''],
      requiredFiles = [],
      currentFiles = files,
      currentLibraries = [Some library, Some ex_proj],
      currentLineOfCode = [1],
      cli_log = msgs\<rparr>"

section \<open>Properties of splitting\<close>

lemma js_split_acc_no_sep:
  "c \<notin> set s \<Longrightarrow> js_split_acc [c] acc s = [acc @ s]"
proof (induction s arbitrary: acc)
  case Nil
  then show ?case by (simp add: js_split_acc.simps)
next
  case (Cons a s)
  then show ?case by (subst js_split_acc.simps) simp
qed

lemma js_split_acc_at_sep:
  "c \<notin> set a \<Longrightarrow> js_split_acc [c] acc (a @ c # b) = (acc @ a) # js_split_acc [c] [] b"
proof (induction a arbitrary: acc)
  case Nil
  then show ?case by (subst js_split_acc.simps) simp
next
  case (Cons x a)
  then show ?case by (subst js_split_acc.simps) simp
qed

lemma js_split_acc_nonempty: "js_split_acc sep acc s \<noteq> []"
proof (induction s arbitrary: acc)
  case Nil
  then show ?case by (subst js_split_acc.simps) simp
next
  case (Cons a s)
  then show ?case by (subst js_split_acc.simps) simp
qed

lemma split_at_first:
  "c \<in> set s \<Longrightarrow> s = takeWhile (\<lambda>x. x \<noteq> c) s @ c # tl (dropWhile (\<lambda>x. x \<noteq> c) s)"
  by (induction s) auto

lemma js_split_no_colon: "c \<notin> set s \<Longrightarrow> js_split [c] s = [s]"
  by (simp add: js_split_def js_split_acc_no_sep)

lemma js_split_first_colon:
  assumes "c \<in> set s"
  shows "js_split [c] s =
           takeWhile (\<lambda>x. x \<noteq> c) s # js_split [c] (tl (dropWhile (\<lambda>x. x \<noteq> c) s))"
proof -
  let ?a = "takeWhile (\<lambda>x. x \<noteq> c) s" and ?b = "tl (dropWhile (\<lambda>x. x \<noteq> c) s)"
  have s: "s = ?a @ c # ?b" using assms by (rule split_at_first)
  have a: "c \<notin> set ?a" by (auto dest: set_takeWhileD)
  have "js_split [c] (?a @ c # ?b) = ?a # js_split [c] ?b"
    using js_split_acc_at_sep [OF a, of "[]" ?b] by (simp add: js_split_def)
  with s show ?thesis by simp
qed

lemma takeWhile_no_sep: "c \<notin> set s \<Longrightarrow> takeWhile (\<lambda>x. x \<noteq> c) s = s"
  by (induction s) auto

lemma js_split_hd_no_colon:
  "js_split [c] s ! 0 = takeWhile (\<lambda>x. x \<noteq> c) s"
proof (cases "c \<in> set s")
  case True
  then show ?thesis by (simp add: js_split_first_colon)
next
  case False
  show ?thesis
    unfolding js_split_no_colon [OF False] takeWhile_no_sep [OF False] by simp
qed






section \<open>Properties of the matchers\<close>

subsection \<open>A block that matches\<close>









subsection \<open>A text that cannot end a match\<close>

lemma stable_contI:
  "(\<And>x. k (x @ tail) = map_option ext (k x)) \<Longrightarrow> (\<And>z. suffix z tail \<Longrightarrow> k z = None)
   \<Longrightarrow> stable_cont tail ext k"
  by (simp add: stable_cont_def)

lemma stable_cont_append: "stable_cont tail ext k \<Longrightarrow> k (x @ tail) = map_option ext (k x)"
  by (simp add: stable_cont_def)

lemma stable_cont_suffix: "stable_cont tail ext k \<Longrightarrow> suffix z tail \<Longrightarrow> k z = None"
  by (simp add: stable_cont_def)

lemma stable_cont_Nil: "stable_cont tail ext k \<Longrightarrow> k [] = None"
  using stable_cont_append [of tail ext k "[]"] stable_cont_suffix [of tail ext k tail]
  by simp

lemma suffix_tl: "suffix (c # z) tail \<Longrightarrow> suffix z tail"
  by (metis suffix_ConsD)

lemma stable_re_lit:
  assumes "stable_cont tail ext k"
  shows "stable_cont tail ext (re_lit l k)"
proof (rule stable_contI)
  fix x
  show "re_lit l k (x @ tail) = map_option ext (re_lit l k x)"
  proof (cases "prefix l x")
    case True
    then obtain y where "x = l @ y" by (auto simp: prefix_def)
    then show ?thesis using assms by (simp add: re_lit_def stable_cont_append)
  next
    case False
    show ?thesis
    proof (cases "prefix l (x @ tail)")
      case True
      with False obtain us where us: "l = x @ us" "prefix us tail"
        by (auto simp: prefix_append)
      then have "drop (length l) (x @ tail) = drop (length us) tail" by simp
      moreover have "suffix (drop (length us) tail) tail" by (rule suffix_drop)
      ultimately have "k (drop (length l) (x @ tail)) = None"
        using assms by (simp add: stable_cont_suffix)
      with True False show ?thesis by (simp add: re_lit_def)
    next
      case nope: False
      with False show ?thesis by (simp add: re_lit_def)
    qed
  qed
next
  fix z
  assume "suffix z tail"
  then have "suffix (drop (length l) z) tail"
    by (meson suffix_drop suffix_order.trans)
  then show "re_lit l k z = None"
    using assms by (simp add: re_lit_def stable_cont_suffix)
qed

lemma stable_re_star_lazy:
  assumes "\<And>acc. stable_cont tail ext (k acc)"
  shows "stable_cont tail ext (re_star_lazy p k acc)"
proof (rule stable_contI)
  have suf: "suffix z tail \<Longrightarrow> re_star_lazy p k acc z = None" for z acc
  proof (induction z arbitrary: acc)
    case Nil
    then show ?case by (simp add: stable_cont_Nil [OF assms])
  next
    case (Cons c z)
    then show ?case
      using suffix_tl [of c z tail] by (simp add: stable_cont_suffix [OF assms])
  qed
  show "re_star_lazy p k acc (x @ tail) = map_option ext (re_star_lazy p k acc x)" for x
  proof (induction x arbitrary: acc)
    case Nil
    then show ?case using suf [of tail] by (simp add: stable_cont_Nil [OF assms])
  next
    case (Cons c x)
    have "k acc (c # x @ tail) = map_option ext (k acc (c # x))"
      using stable_cont_append [OF assms, of acc "c # x"] by simp
    then show ?case using Cons by (cases "k acc (c # x)") auto
  qed
  show "suffix z tail \<Longrightarrow> re_star_lazy p k acc z = None" for z by (rule suf)
qed

lemma stable_re_star_greedy:
  assumes "\<And>acc. stable_cont tail ext (k acc)"
  shows "stable_cont tail ext (re_star_greedy p k acc)"
proof (rule stable_contI)
  have suf: "suffix z tail \<Longrightarrow> re_star_greedy p k acc z = None" for z acc
  proof (induction z arbitrary: acc)
    case Nil
    then show ?case by (simp add: stable_cont_Nil [OF assms])
  next
    case (Cons c z)
    then show ?case
      using suffix_tl [of c z tail] by (simp add: stable_cont_suffix [OF assms])
  qed
  show "re_star_greedy p k acc (x @ tail) = map_option ext (re_star_greedy p k acc x)" for x
  proof (induction x arbitrary: acc)
    case Nil
    then show ?case using suf [of tail] by (simp add: stable_cont_Nil [OF assms])
  next
    case (Cons c x)
    have "k acc (c # x @ tail) = map_option ext (k acc (c # x))"
      using stable_cont_append [OF assms, of acc "c # x"] by simp
    then show ?case using Cons by (cases "re_star_greedy p k (acc @ [c]) x") auto
  qed
  show "suffix z tail \<Longrightarrow> re_star_greedy p k acc z = None" for z by (rule suf)
qed

lemma stable_re_plus_greedy:
  assumes "\<And>acc. stable_cont tail ext (k acc)"
  shows "stable_cont tail ext (re_plus_greedy p k)"
proof (rule stable_contI)
  note st = stable_re_star_greedy [of tail ext k p, OF assms]
  show "re_plus_greedy p k (x @ tail) = map_option ext (re_plus_greedy p k x)" for x
  proof (cases x)
    case Nil
    have "re_plus_greedy p k tail = None"
      using stable_cont_suffix [OF st, of "tl tail"] suffix_tl [of "hd tail" "tl tail" tail]
      by (cases tail) (auto simp: re_plus_greedy_def)
    with Nil show ?thesis by (simp add: re_plus_greedy_def)
  next
    case (Cons c cs)
    then show ?thesis using stable_cont_append [OF st, of "[c]" cs]
      by (simp add: re_plus_greedy_def)
  qed
  show "suffix z tail \<Longrightarrow> re_plus_greedy p k z = None" for z
    using stable_cont_suffix [OF st, of "tl z"] suffix_tl [of "hd z" "tl z" tail]
    by (cases z) (auto simp: re_plus_greedy_def)
qed

lemma stable_re_opt_greedy:
  assumes "stable_cont tail ext k"
  shows "stable_cont tail ext (re_opt_greedy p k)"
proof (rule stable_contI)
  have suf: "suffix z tail \<Longrightarrow> re_opt_greedy p k z = None" for z
    using stable_cont_suffix [OF assms, of "tl z"] stable_cont_suffix [OF assms, of z]
      suffix_tl [of "hd z" "tl z" tail] stable_cont_Nil [OF assms]
    by (cases z) (auto simp: re_opt_greedy_def)
  show "re_opt_greedy p k (x @ tail) = map_option ext (re_opt_greedy p k x)" for x
  proof (cases x)
    case Nil
    with suf [of tail] show ?thesis using stable_cont_Nil [OF assms]
      by (simp add: re_opt_greedy_def)
  next
    case (Cons c cs)
    then show ?thesis
      using stable_cont_append [OF assms, of cs] stable_cont_append [OF assms, of "c # cs"]
      by (cases "k cs") (auto simp: re_opt_greedy_def)
  qed
  show "suffix z tail \<Longrightarrow> re_opt_greedy p k z = None" for z by (rule suf)
qed


lemma js_includes_iff: "js_includes s sub \<longleftrightarrow> (\<exists>z. suffix z s \<and> prefix sub z)"
proof (induction s)
  case Nil
  then show ?case by auto
next
  case (Cons c s)
  show ?case
  proof
    assume "js_includes (c # s) sub"
    then consider "prefix sub (c # s)" | "js_includes s sub" by auto
    then show "\<exists>z. suffix z (c # s) \<and> prefix sub z"
    proof cases
      case 1
      then show ?thesis by blast
    next
      case 2
      with Cons obtain z where "suffix z s" "prefix sub z" by blast
      then show ?thesis by (meson suffix_Cons)
    qed
  next
    assume "\<exists>z. suffix z (c # s) \<and> prefix sub z"
    then obtain z where z: "suffix z (c # s)" "prefix sub z" by blast
    then consider "z = c # s" | "suffix z s" by (auto simp: suffix_Cons)
    then show "js_includes (c # s) sub"
    proof cases
      case 1
      with z show ?thesis by simp
    next
      case 2
      with z Cons show ?thesis by auto
    qed
  qed
qed

lemma no_straddle:
  assumes "\<not> prefix (NL # ''---@end'') x"
    and "\<not> prefix (NL # ''---@end'') (''---@if'' @ post)"
  shows "\<not> prefix (NL # ''---@end'') (x @ ''---@if'' @ post)"
proof
  assume "prefix (NL # ''---@end'') (x @ ''---@if'' @ post)"
  with assms(1) obtain us where us: "NL # ''---@end'' = x @ us" "prefix us (''---@if'' @ post)"
    by (auto simp: prefix_append)
  have len: "length x + length us = 8"
    using arg_cong [OF us(1), of length] by simp
  have x: "x = take (length x) (NL # ''---@end'')" and u: "us = drop (length x) (NL # ''---@end'')"
    using us(1) by (metis append_eq_conv_conj)+
  from len consider "length x = 0" | "length x = 1" | "length x = 2" | "length x = 3"
    | "length x = 4" | "length x = 5" | "length x = 6" | "length x = 7" | "length x = 8"
    by linarith
  then show False
  proof cases
    case 1
    with u us(2) assms(2) show ?thesis by simp
  next
    case 2
    with u us(2) show ?thesis by simp
  next
    case 3
    with u us(2) show ?thesis by simp
  next
    case 4
    with u us(2) show ?thesis by simp
  next
    case 5
    with u us(2) show ?thesis by simp
  next
    case 6
    with u us(2) show ?thesis by simp
  next
    case 7
    with u us(2) show ?thesis by simp
  next
    case 8
    with u us(2) show ?thesis by simp
  next
    case 9
    with x assms(1) show ?thesis by simp
  qed
qed

lemma stable_end_marker:
  assumes "\<not> js_includes (''---@if'' @ post) (NL # ''---@end'')"
  shows "stable_cont (''---@if'' @ post) (\<lambda>(n, v, i, r). (n, v, i, r @ ''---@if'' @ post))
           (re_lit (NL # ''---@end'') (\<lambda>rest. Some (n, v, i, rest)))"
proof (rule stable_contI)
  have none: "suffix z (''---@if'' @ post) \<Longrightarrow> \<not> prefix (NL # ''---@end'') z" for z
    using assms by (auto simp: js_includes_iff)
  show "re_lit (NL # ''---@end'') (\<lambda>rest. Some (n, v, i, rest)) (x @ ''---@if'' @ post) =
        map_option (\<lambda>(n, v, i, r). (n, v, i, r @ ''---@if'' @ post))
          (re_lit (NL # ''---@end'') (\<lambda>rest. Some (n, v, i, rest)) x)" for x
  proof (cases "prefix (NL # ''---@end'') x")
    case True
    then obtain y where "x = (NL # ''---@end'') @ y" by (auto simp: prefix_def)
    then show ?thesis by (simp add: re_lit_def)
  next
    case False
    then have "\<not> prefix (NL # ''---@end'') (x @ ''---@if'' @ post)"
      using none [of "''---@if'' @ post"] by (intro no_straddle) simp_all
    with False show ?thesis by (simp add: re_lit_def)
  qed
  show "suffix z (''---@if'' @ post) \<Longrightarrow>
        re_lit (NL # ''---@end'') (\<lambda>rest. Some (n, v, i, rest)) z = None" for z
    using none [of z] by (simp add: re_lit_def)
qed

lemma stable_if_block_regex:
  assumes "\<not> js_includes (''---@if'' @ post) (NL # ''---@end'')"
  shows "stable_cont (''---@if'' @ post) (\<lambda>(n, v, i, r). (n, v, i, r @ ''---@if'' @ post))
           if_block_regex"
  unfolding if_block_regex_def
  by (intro stable_re_lit stable_re_plus_greedy stable_re_opt_greedy stable_re_star_lazy
        stable_end_marker [OF assms])

lemma js_replace_all_stable:
  assumes app: "\<And>left x. rx left (x @ tail) = map_option (\<lambda>(m, r). (m, r @ tail)) (rx left x)"
    and suf: "\<And>left z. suffix z tail \<Longrightarrow> rx left z = None"
  shows "js_replace_all rx f left (x @ tail) = js_replace_all rx f left x @ tail"
proof -
  have nil: "rx left [] = None" for left
    using app [of left "[]"] suf [of tail left] by simp
  have id: "suffix z tail \<Longrightarrow> js_replace_all rx f left z = z" for z left
  proof (induction z arbitrary: left)
    case Nil
    then show ?case by (simp add: js_replace_all.simps [of rx f left "[]"] nil)
  next
    case (Cons c z)
    then show ?case
      using suffix_tl [of c z tail]
      by (simp add: js_replace_all.simps [of rx f left "c # z"] suf)
  qed
  show ?thesis
  proof (induction "length x" arbitrary: x left rule: less_induct)
    case less
    show ?case
    proof (cases "rx left x")
      case None
      then have n: "rx left (x @ tail) = None" by (simp add: app)
      show ?thesis
      proof (cases x)
        case Nil
        then show ?thesis using id [of tail left]
          by (simp add: js_replace_all.simps [of rx f left "[]"] nil)
      next
        case (Cons c cs)
        then have "js_replace_all rx f (left @ [c]) (cs @ tail)
                     = js_replace_all rx f (left @ [c]) cs @ tail"
          using less [of cs "left @ [c]"] by simp
        with None n Cons show ?thesis
          by (simp add: js_replace_all.simps [of rx f left "c # cs @ tail"]
                js_replace_all.simps [of rx f left "c # cs"])
      qed
    next
      case (Some a)
      obtain m rest where a: "a = (m, rest)" by (cases a)
      with Some have s: "rx left (x @ tail) = Some (m, rest @ tail)" by (simp add: app)
      from Some nil obtain c cs where x: "x = c # cs" by (cases x) auto
      show ?thesis
      proof (cases "length rest < length x")
        case True
        then have "js_replace_all rx f (left @ take (length x - length rest) x) (rest @ tail)
                     = js_replace_all rx f (left @ take (length x - length rest) x) rest @ tail"
          using less [of rest] by simp
        with True Some a s show ?thesis
          by (simp add: js_replace_all.simps [of rx f left "x @ tail"]
                js_replace_all.simps [of rx f left x])
      next
        case False
        have "js_replace_all rx f (left @ [c]) (cs @ tail)
                     = js_replace_all rx f (left @ [c]) cs @ tail"
          using less [of cs "left @ [c]"] x by simp
        with False Some a s x show ?thesis
          by (simp add: js_replace_all.simps [of rx f left "c # cs @ tail"]
                js_replace_all.simps [of rx f left "c # cs"])
      qed
    qed
  qed
qed

section \<open>Properties of the directives\<close>

text \<open>A global replacement copies a text in which the pattern matches nowhere.\<close>

lemma matches_nowhere_Nil: "matches_nowhere rx left [] tail"
  by (simp add: matches_nowhere_def)









section \<open>Properties of the source transformer\<close>








section \<open>Properties of requiring a file\<close>

lemma filter_Cons_holds: "filter P xs = x # ys \<Longrightarrow> P x"
  by (induction xs) (auto split: if_splits)


lemma requireFile_loop:
  assumes "getRequiredFileInfo env st ref = Inr (Some info)"
    and "fullpath info \<in> set (currentFiles st)"
  shows "requireFile (Suc fuel) env ref st = Failed (FilesRequiredInLoop (getCurrentFile st))"
  using assms by (simp add: requireFile_body_def)

lemma requireFile_cached:
  assumes "getRequiredFileInfo env st ref = Inr (Some info)"
    and "fullpath info \<notin> set (currentFiles st)"
    and "filter (\<lambda>entry. fullNameWithProject entry = requireFullName env info) (requiredFiles st)
           = cached # others"
  shows "requireFile (Suc fuel) env ref st =
           Done (Some cached)
             (if containsPath env (fullpath info) then st
              else cli (ExternalPathStatus (requireFullName env info) (fullpath info)) st)"
  using assms by (simp add: requireFile_body_def Let_def cli_def)

lemma requireFile_name:
  assumes "getRequiredFileInfo env st ref = Inr (Some info)"
    and "requireFile (Suc fuel) env ref st = Done (Some entry) st'"
  shows "fullNameWithProject entry = requireFullName env info"
  using assms
  by (auto simp: requireFile_body_def Let_def cli_def dest: filter_Cons_holds
           split: if_splits list.splits option.splits outcome.splits)


lemma external_name_collision:
  assumes "10 \<le> length (sha1_hex env p)" "10 \<le> length (sha1_hex env q)"
    and "external_name env p = external_name env q"
  shows "take 10 (sha1_hex env p) = take 10 (sha1_hex env q)
         \<and> path_basename env p = path_basename env q"
proof -
  have "length (take 10 (sha1_hex env p)) = length (take 10 (sha1_hex env q))"
    using assms(1,2) by simp
  with assms(3) show ?thesis by (simp add: external_name_def Let_def)
qed

lemma getRequiredFileInfo_canonical:
  assumes "getRequiredFileInfo env st ref = Inr (Some info)"
    and "getCurrentLibrary st = Some cur"
  shows "requireInfo info =
           \<lparr>project = Some (case named_project (parseFileString ref) of
                               Some p \<Rightarrow> p | None \<Rightarrow> lib_id cur),
            filename = backslashes_to_slashes
                         (path_relative env (sourcePath cur) (fullpath info))\<rparr>"
  using assms
  by (auto simp: getRequiredFileInfo_def Let_def split: option.splits if_splits)

section \<open>Properties of a reference that resolves to no file\<close>










section \<open>The builds of two examples\<close>

text \<open>The build of the example with two paths to one file, to its end.\<close>

lemma diamond_build:
  "outcome_state (startBuild (Suc (Suc (Suc 0))) ex_diamond_env) =
     Some \<lparr>sourceDirectories = [''/p/src''],
           requiredFiles =
             [\<lparr>fullNameWithProject = ''lib:../lib/util.lua'', sourceCode = ''return 1''\<rparr>,
              \<lparr>fullNameWithProject = ''lib:util.lua'', sourceCode = ''return 1''\<rparr>,
              \<lparr>fullNameWithProject = ''lib:../lib/helper.lua'',
                sourceCode = ''return require('' @ [SQ] @ ''lib:util.lua'' @ [SQ] @ '')''\<rparr>],
           currentFiles = [],
           currentLibraries = [Some ex_proj],
           currentLineOfCode = [],
           cli_log =
             [CompilingStatus ''/p/src/main.lua'', CompilingStatus ''/p/lib/util.lua'',
              CompilingStatus ''/p/lib/helper.lua'', CompilingStatus ''/p/lib/util.lua'']\<rparr>"
  by code_simp

text \<open>
  The build of the example with a cycle: the error that \<^verbatim>\<open>requireFile\<close> raises for the
  file on the stack, two files deep, ends the build.
\<close>

lemma cycle_build:
  "startBuild (Suc (Suc (Suc 0))) ex_cycle_env = Failed (FilesRequiredInLoop (Some ''/p/src/b.lua''))"
  by code_simp

section \<open>Claim C1\<close>

text \<open>
  Claim C1: at most one entry is accumulated for an absolute path, and a reference that
  resolves to a path resolved before returns the entry of that path without compiling
  the file again. The code means to do so (\<^verbatim>\<open>requireFile\<close> looks for an accumulated entry
  before it reads the file, under the comment that this prevents processing the file
  multiple times), but it looks the entry up by name, and \<^verbatim>\<open>getRequiredFileInfo\<close> names a
  file by the library of the reference and the path relative to the source root of the
  library that is current where the reference stands. So one file gets a name from each
  library it is required from, and the lookup misses. In the example the build requires
  \<^verbatim>\<open>lib:util\<close> (named \<^verbatim>\<open>lib:../lib/util.lua\<close> from the project) and \<^verbatim>\<open>lib:helper\<close>, whose
  \<^verbatim>\<open>require("util")\<close> resolves to the same file (named \<^verbatim>\<open>lib:util.lua\<close> from the library):
  the file \<^verbatim>\<open>/p/lib/util.lua\<close> is compiled twice and has two entries.
\<close>

theorem diamond_two_entries_for_one_path:
  "outcome_entries (startBuild (Suc (Suc (Suc 0))) ex_diamond_env) =
     Some [''lib:../lib/util.lua'', ''lib:util.lua'', ''lib:../lib/helper.lua'']
   \<and> outcome_log (startBuild (Suc (Suc (Suc 0))) ex_diamond_env) =
     Some [CompilingStatus ''/p/src/main.lua'', CompilingStatus ''/p/lib/util.lua'',
           CompilingStatus ''/p/lib/helper.lua'', CompilingStatus ''/p/lib/util.lua'']"
  by (simp add: outcome_entries_def outcome_log_def diamond_build)

section \<open>Claim C2\<close>

text \<open>
  Claim C2: a reference to a file that is being processed stops the compilation, and a
  file that is referenced twice on two paths without a cycle resolves exactly once. The
  first half holds on the code: \<^verbatim>\<open>requireFile\<close> fails for a file on the stack of files, and
  in the example of a cycle the error ends the build. The second half fails by the
  naming of claim C1: in the example there, the file \<^verbatim>\<open>/p/lib/util.lua\<close> is required by
  the build and by the helper of the library, on no cycle; the build succeeds, and the
  file is compiled twice.
\<close>

theorem diamond_file_compiled_twice:
  "outcome_compilations ''/p/lib/util.lua'' (startBuild (Suc (Suc (Suc 0))) ex_diamond_env) = Some 2"
  by (simp add: outcome_compilations_def outcome_log_def diamond_build)

section \<open>Claim C3\<close>



section \<open>Claim C4\<close>

text \<open>
  Claim C4: the file name of a resolved reference is its path relative to the source
  root of the library assigned to it, so that one file has one name however it is
  referenced. The code looks the file up under the source root of the library that
  the reference names, and then takes the path relative to the source root of the
  current library, also when another library is named. From the project, \<^verbatim>\<open>lib:util\<close>
  gets the file name \<^verbatim>\<open>../lib/util.lua\<close>, which is not relative to the root \<^verbatim>\<open>/p/lib\<close> of the
  library \<^verbatim>\<open>lib\<close> assigned to it; the bare \<^verbatim>\<open>../lib/util\<close> resolves to the same file under
  the library \<^verbatim>\<open>proj\<close>; and from the library, \<^verbatim>\<open>util\<close> gets the name \<^verbatim>\<open>util.lua\<close> for the same
  file: one file, three names.
\<close>

theorem canonical_name_depends_on_referrer:
  "getRequiredFileInfo ex_diamond_env (initial_state ex_diamond_env) ''lib:util''
     = Inr (Some \<lparr>requireInfo = \<lparr>project = Some ''lib'', filename = ''../lib/util.lua''\<rparr>,
                  fullpath = ''/p/lib/util.lua''\<rparr>)
   \<and> getRequiredFileInfo ex_diamond_env (initial_state ex_diamond_env) ''../lib/util''
     = Inr (Some \<lparr>requireInfo = \<lparr>project = Some ''proj'', filename = ''../lib/util.lua''\<rparr>,
                  fullpath = ''/p/lib/util.lua''\<rparr>)
   \<and> getRequiredFileInfo ex_diamond_env
       (ex_state_in ''/p/lib'' ex_lib [''/p/lib/helper.lua'', ''/p/src/main.lua''] []) ''util''
     = Inr (Some \<lparr>requireInfo = \<lparr>project = Some ''lib'', filename = ''util.lua''\<rparr>,
                  fullpath = ''/p/lib/util.lua''\<rparr>)"
  by code_simp

section \<open>Claim C5\<close>

text \<open>
  Claim C5: when a reference resolves to a file outside the project and \<^verbatim>\<open>requireFile\<close>
  returns an entry, the name of the entry is the first ten characters of the digest of
  the full path, a colon and the base name of the path. The name is computed from the
  path alone, by the digest and the base name. If the digests have ten characters or
  more, a path with the same name has the same first ten characters of the digest
  and the same base name: two paths get one name only when the shortened digests
  collide.
\<close>

theorem requireFile_external_key:
  assumes "getRequiredFileInfo env st ref = Inr (Some info)"
    and "\<not> containsPath env (fullpath info)"
    and "requireFile (Suc fuel) env ref st = Done (Some entry) st'"
  shows "fullNameWithProject entry =
           take 10 (sha1_hex env (fullpath info)) @ '':'' @ path_basename env (fullpath info)
       \<and> fullNameWithProject entry = external_name env (fullpath info)
       \<and> (\<forall>q. 10 \<le> length (sha1_hex env (fullpath info)) \<and> 10 \<le> length (sha1_hex env q)
               \<and> external_name env q = fullNameWithProject entry
             \<longrightarrow> take 10 (sha1_hex env q) = take 10 (sha1_hex env (fullpath info))
                 \<and> path_basename env q = path_basename env (fullpath info))"
proof -
  have n: "fullNameWithProject entry = external_name env (fullpath info)"
    using requireFile_name [OF assms(1,3)] assms(2) by (simp add: requireFullName_def)
  then have "fullNameWithProject entry =
           take 10 (sha1_hex env (fullpath info)) @ '':'' @ path_basename env (fullpath info)"
    by (simp add: external_name_def Let_def)
  moreover have "take 10 (sha1_hex env q) = take 10 (sha1_hex env (fullpath info))
                 \<and> path_basename env q = path_basename env (fullpath info)"
    if "10 \<le> length (sha1_hex env (fullpath info))" "10 \<le> length (sha1_hex env q)"
      "external_name env q = fullNameWithProject entry" for q
    using external_name_collision [of env q "fullpath info"] that n by simp
  ultimately show ?thesis using n by blast
qed

theorem requireFile_external_key_witness:
  "requireFile (Suc 0) ex_external_env ''ext:tool''
     (ex_state_in ''/p/src'' ex_proj [''/p/src/main.lua''] [CompilingStatus ''/p/src/main.lua''])
   = Done (Some \<lparr>fullNameWithProject = ''ae19071046:tool.lua'', sourceCode = ''return 2''\<rparr>)
       ((ex_state_in ''/p/src'' ex_proj [''/p/src/main.lua'']
           [CompilingStatus ''/p/src/main.lua'',
            ExternalPathStatus ''ae19071046:tool.lua'' ''/ext/tool.lua'',
            CompilingStatus ''/ext/tool.lua''])
          \<lparr>requiredFiles := [\<lparr>fullNameWithProject = ''ae19071046:tool.lua'',
                               sourceCode = ''return 2''\<rparr>]\<rparr>)
   \<and> take 10 (sha1_hex ex_external_env ''/ext/tool.lua'') @ '':''
        @ path_basename ex_external_env ''/ext/tool.lua'' = ''ae19071046:tool.lua''"
proof -
  let ?st = "ex_state_in ''/p/src'' ex_proj [''/p/src/main.lua''] [CompilingStatus ''/p/src/main.lua'']"
  let ?info = "\<lparr>requireInfo = \<lparr>project = Some ''ext'', filename = ''../../ext/tool.lua''\<rparr>,
                fullpath = ''/ext/tool.lua''\<rparr>"
  let ?entry = "\<lparr>fullNameWithProject = ''ae19071046:tool.lua'', sourceCode = ''return 2''\<rparr>"
  let ?st' = "(ex_state_in ''/p/src'' ex_proj [''/p/src/main.lua'']
                 [CompilingStatus ''/p/src/main.lua'',
                  ExternalPathStatus ''ae19071046:tool.lua'' ''/ext/tool.lua'',
                  CompilingStatus ''/ext/tool.lua''])
                \<lparr>requiredFiles := [?entry]\<rparr>"
  have 1: "getRequiredFileInfo ex_external_env ?st ''ext:tool'' = Inr (Some ?info)"
    by code_simp
  have 2: "\<not> containsPath ex_external_env (fullpath ?info)"
    by code_simp
  have 3: "requireFile (Suc 0) ex_external_env ''ext:tool'' ?st = Done (Some ?entry) ?st'"
    by code_simp
  note k = requireFile_external_key [OF 1 2 3, THEN conjunct1, symmetric]
  have n: "take 10 (sha1_hex ex_external_env ''/ext/tool.lua'') @ '':''
             @ path_basename ex_external_env ''/ext/tool.lua'' = ''ae19071046:tool.lua''"
    using k by simp
  show ?thesis by (rule conjI [OF 3 n])
qed

section \<open>Claim C6\<close>




section \<open>Claim C7\<close>

text \<open>
  Claim C7 says that, without preloads, a line that is an inlined require and nothing
  else is dropped and that every other line is still processed and emitted. The loop
  over the lines does not drop the line: it executes \<^verbatim>\<open>return ''\<close>, which ends
  \<^verbatim>\<open>processSourceCode\<close> with the empty text for the whole file. In the example the build
  is \<^verbatim>\<open>require("util")\<close> on the first line and \<^verbatim>\<open>print(1)\<close> on the second, compiled
  without preloads: the output of the build is empty, and the second line is lost
  with the first.
\<close>

theorem inline_require_empties_the_file:
  "startBuild (Suc (Suc 0)) (ex_inline_env False) =
     Done \<lparr>result_output = [],
            result_preloads =
              [output_preload \<lparr>fullNameWithProject = ''proj:util.lua'', sourceCode = ''return 1''\<rparr>]\<rparr>
       \<lparr>sourceDirectories = [''/p/src''],
        requiredFiles = [\<lparr>fullNameWithProject = ''proj:util.lua'', sourceCode = ''return 1''\<rparr>],
        currentFiles = [],
        currentLibraries = [Some ex_proj],
        currentLineOfCode = [1],
        cli_log = [CompilingStatus ''/p/src/main.lua'', CompilingStatus ''/p/src/util.lua'']\<rparr>"
  by code_simp

section \<open>Claim C8\<close>

text \<open>
  Claim C8 says that a digit followed by a question mark and a line break is rewritten
  to the digit, \<^verbatim>\<open>.0\<close> and the line break, with a warning. The pattern and its handler do
  that, but the patterns are applied to the lines of the text, one at a time, and a
  line of \<^verbatim>\<open>sourceCode.split('\n')\<close> has no line break: the pattern matches in no line of
  the source. In the example the first line ends in \<^verbatim>\<open>5?\<close>: the text comes out as it
  went in, and the only message is that the file is compiled.
\<close>

theorem question_mark_is_not_rewritten:
  "startBuild (Suc 0) ex_question_env =
     Done \<lparr>result_output = ''x = 1 -- v5?'' @ [NL] @ ''return x'', result_preloads = []\<rparr>
       \<lparr>sourceDirectories = [''/p/src''],
        requiredFiles = [],
        currentFiles = [],
        currentLibraries = [Some ex_proj],
        currentLineOfCode = [],
        cli_log = [CompilingStatus ''/p/src/main.lua'']\<rparr>"
  by code_simp

section \<open>Claim C9\<close>

text \<open>
  Claim C9, as the specification states it: a reference is split at its first colon only,
  the text before it is the library and all of the text after it is the file name.
  On the code the reference is split at every colon and the second piece is the file
  name, so a second colon ends the file name: \<^verbatim>\<open>lib:a:b\<close> names the file \<^verbatim>\<open>a\<close>.
\<close>

theorem parseFileString_later_colon_counterexample:
  "parseFileString ''lib:a:b'' = \<lparr>project = Some ''lib'', filename = ''a''\<rparr>
   \<and> filename (parseFileString ''lib:a:b'') \<noteq> ''a:b''"
  by (simp add: parseFileString_def js_split_def js_split_acc.simps)

text \<open>
  Claim C9, amended: without a colon the whole reference is the file name and no library
  is named; otherwise the text before the first colon is the library, and the file name
  is the text after the first colon up to the next colon, or up to the end of the
  reference when there is no other colon.
\<close>

theorem parseFileString_pieces:
  "parseFileString s =
     (if CHR '':'' \<in> set s
      then \<lparr>project = Some (takeWhile (\<lambda>c. c \<noteq> CHR '':'') s),
            filename = takeWhile (\<lambda>c. c \<noteq> CHR '':'') (tl (dropWhile (\<lambda>c. c \<noteq> CHR '':'') s))\<rparr>
      else \<lparr>project = None, filename = s\<rparr>)"
proof (cases "CHR '':'' \<in> set s")
  case True
  let ?rest = "tl (dropWhile (\<lambda>c. c \<noteq> CHR '':'') s)"
  have ne: "js_split '':'' ?rest \<noteq> []"
    by (simp add: js_split_def js_split_acc_nonempty)
  have two: "\<not> length (js_split '':'' s) < 2"
    using ne by (cases "js_split '':'' ?rest") (simp_all add: js_split_first_colon [OF True])
  have "js_split '':'' s ! 1 = js_split '':'' ?rest ! 0"
    by (simp add: js_split_first_colon [OF True])
  then have snd: "js_split '':'' s ! 1 = takeWhile (\<lambda>c. c \<noteq> CHR '':'') ?rest"
    by (simp only: js_split_hd_no_colon)
  show ?thesis
    using True two snd by (simp add: parseFileString_def Let_def js_split_hd_no_colon)
next
  case False
  then show ?thesis by (simp add: parseFileString_def js_split_no_colon)
qed

theorem parseFileString_pieces_witness:
  "parseFileString ''Lib:dir/File'' = \<lparr>project = Some ''Lib'', filename = ''dir/File''\<rparr>
   \<and> parseFileString ''File'' = \<lparr>project = None, filename = ''File''\<rparr>"
  using parseFileString_pieces [of "''Lib:dir/File''"] parseFileString_pieces [of "''File''"]
  by simp

section \<open>Claim C10\<close>

text \<open>
  Claim C10: an opening marker \<^verbatim>\<open>---@if\<close> that no closing marker follows (no line after
  it begins with \<^verbatim>\<open>---@end\<close>) and all the text after it pass through the processing of
  directives unchanged, whatever is replaced in the text before the marker. The
  function has no way to fail: it returns a text for every text.
\<close>

theorem processDirectives_unterminated:
  assumes "\<not> js_includes (''---@if'' @ post) (NL # ''---@end'')"
  shows "processDirectives rt vars (pre @ ''---@if'' @ post)
           = processDirectives rt vars pre @ ''---@if'' @ post"
  unfolding processDirectives_def
proof (rule js_replace_all_stable)
  note st = stable_if_block_regex [OF assms]
  show "map_option (\<lambda>(n, v, i, rest). ((n, v, i), rest)) (if_block_regex (x @ ''---@if'' @ post)) =
        map_option (\<lambda>(m, r). (m, r @ ''---@if'' @ post))
          (map_option (\<lambda>(n, v, i, rest). ((n, v, i), rest)) (if_block_regex x))" for x
    using stable_cont_append [OF st, of x] by (cases "if_block_regex x") auto
  show "suffix z (''---@if'' @ post) \<Longrightarrow>
        map_option (\<lambda>(n, v, i, rest). ((n, v, i), rest)) (if_block_regex z) = None" for z
    using stable_cont_suffix [OF st, of z] by simp
qed

theorem processDirectives_unterminated_witness:
  "processDirectives ex_runtime (\<lambda>v. JUndefined)
     (''x = 1'' @ [NL] @ ''---@if DEBUG'' @ [NL] @ ''print(x)'' @ [NL] @ ''---@else'')
   = ''x = 1'' @ [NL] @ ''---@if DEBUG'' @ [NL] @ ''print(x)'' @ [NL] @ ''---@else''"
proof -
  have h: "\<not> js_includes (''---@if'' @ '' DEBUG'' @ [NL] @ ''print(x)'' @ [NL] @ ''---@else'')
               (NL # ''---@end'')"
    by simp
  have p: "processDirectives ex_runtime (\<lambda>v. JUndefined) (''x = 1'' @ [NL]) = ''x = 1'' @ [NL]"
    by (simp add: processDirectives_def js_replace_all.simps if_block_regex_def re_lit_def
          split del: if_split)
  show ?thesis
    using processDirectives_unterminated [OF h, of ex_runtime "\<lambda>v. JUndefined" "''x = 1'' @ [NL]"] p
    by simp
qed


end
